theory Spec2Isabelle
  imports Main
begin

section \<open>JSON values and the Python builtins used by the handlers\<close>

text \<open>
  The handlers of \<^verbatim>\<open>backend/app.py\<close> work on whatever \<^verbatim>\<open>request.get_json()\<close> and
  \<^verbatim>\<open>json.load\<close> return: \<^verbatim>\<open>None\<close>, booleans, integers, floats, strings, lists and
  dictionaries with string keys. A dictionary is kept as the list of its items in
  insertion order (keys pairwise distinct); lookup is \<open>map_of\<close>.

  Floating-point numbers are not computed with here. The type of floats is the
  parameter \<open>'f\<close>, and what Python does with a float is a field of \<open>pyenv\<close>.
  A string is a list of characters; the characters of the model are the code points
  below 256.
\<close>

datatype 'f json =
    JNull
  | JBool bool
  | JInt int
  | JFloat 'f
  | JStr string
  | JList "'f json list"
  | JObj "(string \<times> 'f json) list"

text \<open>The exceptions that can reach the \<^verbatim>\<open>except\<close> clauses of the handlers.\<close>

datatype exc =
    ValueError string
  | TypeError
  | AttributeError
  | OverflowError
  | BadRequest

text \<open>
  The builtins of the Python runtime that the model does not compute itself:
  \<^item> \<open>float_of_str s\<close>: \<^verbatim>\<open>float(s)\<close> for a string, \<open>None\<close> when it raises ValueError;
  \<^item> \<open>float_of_int n\<close>: \<^verbatim>\<open>float(n)\<close> for an integer, \<open>None\<close> when it raises OverflowError;
  \<^item> \<open>float_is_zero x\<close>: \<^verbatim>\<open>not x\<close> for a float;
  \<^item> \<open>float_eq_int x n\<close>: \<^verbatim>\<open>x == n\<close> for a float and an integer;
  \<^item> \<open>str_other v\<close>: \<^verbatim>\<open>str(v)\<close> for a float, a list or a dictionary;
  \<^item> \<open>repr_str s\<close>: \<^verbatim>\<open>repr(s)\<close> for a string (it stands in the message of float's ValueError);
  \<^item> \<open>gt_other a b\<close>: \<^verbatim>\<open>a > b\<close> when one of the operands is not an integer or boolean;
  \<^item> \<open>add1_other a\<close>: \<^verbatim>\<open>a + 1\<close> when \<open>a\<close> is not an integer or boolean.
\<close>

record 'f pyenv =
  float_of_str :: "string \<Rightarrow> 'f option"
  float_of_int :: "int \<Rightarrow> 'f option"
  float_is_zero :: "'f \<Rightarrow> bool"
  float_eq_int :: "'f \<Rightarrow> int \<Rightarrow> bool"
  str_other :: "'f json \<Rightarrow> string"
  repr_str :: "string \<Rightarrow> string"
  gt_other :: "'f json \<Rightarrow> 'f json \<Rightarrow> exc + bool"
  add1_other :: "'f json \<Rightarrow> exc + 'f json"

text \<open>Truth value testing: \<^verbatim>\<open>if x\<close>, \<^verbatim>\<open>not x\<close>.\<close>

fun truthy :: "'f pyenv \<Rightarrow> 'f json \<Rightarrow> bool" where
  "truthy env JNull = False"
| "truthy env (JBool b) = b"
| "truthy env (JInt n) = (n \<noteq> 0)"
| "truthy env (JFloat x) = (\<not> float_is_zero env x)"
| "truthy env (JStr s) = (s \<noteq> [])"
| "truthy env (JList xs) = (xs \<noteq> [])"
| "truthy env (JObj kv) = (kv \<noteq> [])"

text \<open>\<^verbatim>\<open>x is None\<close>.\<close>

fun is_none :: "'f json \<Rightarrow> bool" where
  "is_none JNull = True"
| "is_none _ = False"

text \<open>\<^verbatim>\<open>d.get(k, default)\<close> on a dictionary; \<^verbatim>\<open>d.get(k)\<close> is \<open>dict_get d k JNull\<close>.\<close>

definition dict_get :: "(string \<times> 'f json) list \<Rightarrow> string \<Rightarrow> 'f json \<Rightarrow> 'f json" where
  "dict_get kv k d = (case map_of kv k of None \<Rightarrow> d | Some v \<Rightarrow> v)"

text \<open>Decimal digits of an integer, as \<^verbatim>\<open>str\<close> prints it.\<close>

fun str_nat :: "nat \<Rightarrow> string" where
  "str_nat n =
     (if n < 10 then [char_of (48 + n)]
      else str_nat (n div 10) @ [char_of (48 + n mod 10)])"

definition str_int :: "int \<Rightarrow> string" where
  "str_int i = (if i < 0 then CHR ''-'' # str_nat (nat (- i)) else str_nat (nat i))"

text \<open>\<^verbatim>\<open>str(v)\<close>.\<close>

fun py_str :: "'f pyenv \<Rightarrow> 'f json \<Rightarrow> string" where
  "py_str env (JStr s) = s"
| "py_str env (JInt n) = str_int n"
| "py_str env (JBool b) = (if b then ''True'' else ''False'')"
| "py_str env JNull = ''None''"
| "py_str env v = str_other env v"

text \<open>
  \<^verbatim>\<open>s.strip()\<close> removes leading and trailing whitespace. Below 256 the characters with
  \<^verbatim>\<open>isspace()\<close> are 9 to 13, 28 to 32, 133 and 160.
\<close>

definition is_space :: "char \<Rightarrow> bool" where
  "is_space c =
     (let n = (of_char c :: nat)
      in (9 \<le> n \<and> n \<le> 13) \<or> (28 \<le> n \<and> n \<le> 32) \<or> n = 133 \<or> n = 160)"

definition strip :: "string \<Rightarrow> string" where
  "strip s = rev (dropWhile is_space (rev (dropWhile is_space s)))"

text \<open>Booleans are integers in Python: \<^verbatim>\<open>True == 1\<close>, \<^verbatim>\<open>False == 0\<close>.\<close>

fun as_int :: "'f json \<Rightarrow> int option" where
  "as_int (JInt n) = Some n"
| "as_int (JBool b) = Some (if b then 1 else 0)"
| "as_int _ = None"

text \<open>\<^verbatim>\<open>float(v)\<close>: ValueError for a string that is no number, OverflowError for an
  integer beyond the range of a double, TypeError for \<^verbatim>\<open>None\<close>, a list or a dictionary.\<close>

fun py_float :: "'f pyenv \<Rightarrow> 'f json \<Rightarrow> exc + 'f" where
  "py_float env (JFloat x) = Inr x"
| "py_float env (JStr s) =
     (case float_of_str env s of
        Some x \<Rightarrow> Inr x
      | None \<Rightarrow> Inl (ValueError (''could not convert string to float: '' @ repr_str env s)))"
| "py_float env (JInt n) =
     (case float_of_int env n of Some x \<Rightarrow> Inr x | None \<Rightarrow> Inl OverflowError)"
| "py_float env (JBool b) =
     (case float_of_int env (if b then 1 else 0) of Some x \<Rightarrow> Inr x | None \<Rightarrow> Inl OverflowError)"
| "py_float env JNull = Inl TypeError"
| "py_float env (JList xs) = Inl TypeError"
| "py_float env (JObj kv) = Inl TypeError"

text \<open>\<^verbatim>\<open>a > b\<close> and \<^verbatim>\<open>a + 1\<close>, computed here on integers and booleans.\<close>

definition py_gt :: "'f pyenv \<Rightarrow> 'f json \<Rightarrow> 'f json \<Rightarrow> exc + bool" where
  "py_gt env a b =
     (case (as_int a, as_int b) of
        (Some x, Some y) \<Rightarrow> Inr (y < x)
      | _ \<Rightarrow> gt_other env a b)"

definition py_add1 :: "'f pyenv \<Rightarrow> 'f json \<Rightarrow> exc + 'f json" where
  "py_add1 env a =
     (case as_int a of Some x \<Rightarrow> Inr (JInt (x + 1)) | None \<Rightarrow> add1_other env a)"

text \<open>\<^verbatim>\<open>v == n\<close> for an integer \<open>n\<close>.\<close>

fun py_eq_int :: "'f pyenv \<Rightarrow> 'f json \<Rightarrow> int \<Rightarrow> bool" where
  "py_eq_int env (JInt m) n = (m = n)"
| "py_eq_int env (JBool b) n = ((if b then 1 else 0) = n)"
| "py_eq_int env (JFloat x) n = float_eq_int env x n"
| "py_eq_int env _ n = False"

text \<open>Iteration: a list yields its elements, a dictionary its keys, a string its
  characters; anything else is not iterable.\<close>

fun py_iter :: "'f json \<Rightarrow> exc + 'f json list" where
  "py_iter (JList xs) = Inr xs"
| "py_iter (JObj kv) = Inr (map (\<lambda>p. JStr (fst p)) kv)"
| "py_iter (JStr s) = Inr (map (\<lambda>c. JStr [c]) s)"
| "py_iter _ = Inl TypeError"

text \<open>\<^verbatim>\<open>len(v)\<close>.\<close>

fun py_len :: "'f json \<Rightarrow> exc + nat" where
  "py_len (JList xs) = Inr (length xs)"
| "py_len (JObj kv) = Inr (length kv)"
| "py_len (JStr s) = Inr (length s)"
| "py_len _ = Inl TypeError"

text \<open>\<^verbatim>\<open>xs.append(x)\<close>: only a list has the method.\<close>

fun py_append :: "'f json \<Rightarrow> 'f json \<Rightarrow> exc + 'f json" where
  "py_append (JList xs) x = Inr (JList (xs @ [x]))"
| "py_append _ x = Inl AttributeError"

section \<open>The store: \<^verbatim>\<open>load_data\<close>, \<^verbatim>\<open>save_data\<close>, \<^verbatim>\<open>get_next_id\<close>\<close>

text \<open>
  The data file is absent, unreadable, holds text that \<^verbatim>\<open>json.load\<close> rejects, or holds a
  JSON value. The world also records every call of \<^verbatim>\<open>save_data\<close> with its argument.
\<close>

datatype 'f disk = NoFile | Unreadable | Corrupt | Holds "'f json"

record 'f world =
  disk :: "'f disk"
  save_calls :: "'f json list"

text \<open>\<^verbatim>\<open>open\<close> followed by \<^verbatim>\<open>json.load\<close>: \<open>None\<close> when either raises.\<close>

fun read_file :: "'f disk \<Rightarrow> 'f json option" where
  "read_file (Holds j) = Some j"
| "read_file NoFile = None"
| "read_file Unreadable = None"
| "read_file Corrupt = None"

text \<open>\<^verbatim>\<open>load_data\<close>: every exception is caught and answered by the empty list.\<close>

definition load_data :: "'f world \<Rightarrow> 'f json" where
  "load_data w = (case read_file (disk w) of Some j \<Rightarrow> j | None \<Rightarrow> JList [])"

text \<open>
  What happens to a write is decided outside the program: it succeeds, \<^verbatim>\<open>open\<close> raises
  (the file stays as it was), or \<^verbatim>\<open>json.dump\<close> raises after \<^verbatim>\<open>open\<close> has truncated the
  file (a proper prefix of the text is left, which is no JSON document).
\<close>

datatype io = IoOk | OpenFails | WriteFails

fun save_data :: "io \<Rightarrow> 'f json \<Rightarrow> 'f world \<Rightarrow> bool \<times> 'f world" where
  "save_data IoOk d w = (True, w\<lparr>disk := Holds d, save_calls := save_calls w @ [d]\<rparr>)"
| "save_data OpenFails d w = (False, w\<lparr>save_calls := save_calls w @ [d]\<rparr>)"
| "save_data WriteFails d w = (False, w\<lparr>disk := Corrupt, save_calls := save_calls w @ [d]\<rparr>)"

text \<open>\<^verbatim>\<open>item.get('id', 0)\<close>: only a dictionary has the method.\<close>

fun item_id :: "'f json \<Rightarrow> exc + 'f json" where
  "item_id (JObj kv) = Inr (dict_get kv ''id'' (JInt 0))"
| "item_id _ = Inl AttributeError"

text \<open>
  \<^verbatim>\<open>max(item.get('id', 0) for item in data)\<close>: the generator is consumed one item at a
  time, each id compared with the largest so far, which it replaces when it is greater.
\<close>

fun max_loop :: "'f pyenv \<Rightarrow> 'f json \<Rightarrow> 'f json list \<Rightarrow> exc + 'f json" where
  "max_loop env m [] = Inr m"
| "max_loop env m (x # xs) =
     (case item_id x of
        Inl e \<Rightarrow> Inl e
      | Inr v \<Rightarrow>
          (case py_gt env v m of
             Inl e \<Rightarrow> Inl e
           | Inr b \<Rightarrow> max_loop env (if b then v else m) xs))"

fun max_ids :: "'f pyenv \<Rightarrow> 'f json list \<Rightarrow> exc + 'f json" where
  "max_ids env [] = Inl (ValueError ''max() arg is an empty sequence'')"
| "max_ids env (x # xs) =
     (case item_id x of Inl e \<Rightarrow> Inl e | Inr m \<Rightarrow> max_loop env m xs)"

definition get_next_id :: "'f pyenv \<Rightarrow> 'f world \<Rightarrow> exc + 'f json" where
  "get_next_id env w =
     (let data = load_data w
      in if \<not> truthy env data then Inr (JInt 1)
         else (case py_iter data of
                 Inl e \<Rightarrow> Inl e
               | Inr items \<Rightarrow>
                   (case max_ids env items of
                      Inl e \<Rightarrow> Inl e
                    | Inr m \<Rightarrow> py_add1 env m)))"

section \<open>The handlers\<close>

text \<open>
  A response is what \<^verbatim>\<open>jsonify(...)\<close>, code returns: the status code and the items of the
  dictionary in the order the source writes them.
\<close>

datatype 'f response = Response (status_code: nat) (payload: "(string \<times> 'f json) list")

text \<open>
  What Flask hands to \<^verbatim>\<open>submit_data\<close>: a request whose content type is not JSON
  (\<^verbatim>\<open>request.is_json\<close> is false), a JSON request whose body does not parse
  (\<^verbatim>\<open>request.get_json()\<close> raises BadRequest), or the parsed body.
\<close>

datatype 'f request = NotJson | BadJson | Json "'f json"

definition required_fields :: "string list" where
  "required_fields = [''title'', ''category'']"

text \<open>\<^verbatim>\<open>[field for field in required_fields if not data.get(field)]\<close>\<close>

definition missing_fields :: "'f pyenv \<Rightarrow> (string \<times> 'f json) list \<Rightarrow> string list" where
  "missing_fields env kv =
     filter (\<lambda>field. \<not> truthy env (dict_get kv field JNull)) required_fields"

text \<open>\<^verbatim>\<open>str(data.get(k, '')).strip()\<close>\<close>

definition clean_str :: "'f pyenv \<Rightarrow> (string \<times> 'f json) list \<Rightarrow> string \<Rightarrow> string" where
  "clean_str env kv k = strip (py_str env (dict_get kv k (JStr [])))"

text \<open>\<^verbatim>\<open>str(data.get(k, '')).strip() if data.get(k) else None\<close>\<close>

definition clean_opt :: "'f pyenv \<Rightarrow> (string \<times> 'f json) list \<Rightarrow> string \<Rightarrow> 'f json" where
  "clean_opt env kv k =
     (if truthy env (dict_get kv k JNull) then JStr (clean_str env kv k) else JNull)"

text \<open>\<^verbatim>\<open>float(data.get('value')) if data.get('value') is not None else None\<close>\<close>

definition clean_value :: "'f pyenv \<Rightarrow> (string \<times> 'f json) list \<Rightarrow> exc + 'f json" where
  "clean_value env kv =
     (if \<not> is_none (dict_get kv ''value'' JNull)
      then (case py_float env (dict_get kv ''value'' JNull) of
              Inl e \<Rightarrow> Inl e
            | Inr x \<Rightarrow> Inr (JFloat x))
      else Inr JNull)"

text \<open>
  The dictionary \<^verbatim>\<open>sanitized_data\<close>. \<open>now1\<close> and \<open>now2\<close> are the results of the two calls of
  \<^verbatim>\<open>datetime.now().isoformat()\<close>, in the order of evaluation. Only \<^verbatim>\<open>float\<close> can raise.
\<close>

definition sanitized_data ::
  "'f pyenv \<Rightarrow> string \<Rightarrow> string \<Rightarrow> (string \<times> 'f json) list \<Rightarrow> exc + (string \<times> 'f json) list"
where
  "sanitized_data env now1 now2 kv =
     (case clean_value env kv of
        Inl e \<Rightarrow> Inl e
      | Inr v \<Rightarrow>
          Inr [(''title'', JStr (clean_str env kv ''title'')),
               (''description'', clean_opt env kv ''description''),
               (''category'', JStr (clean_str env kv ''category'')),
               (''value'', v),
               (''memo'', clean_opt env kv ''memo''),
               (''timestamp'', dict_get kv ''timestamp'' (JStr now1)),
               (''received_at'', JStr now2)])"

text \<open>
  The part of \<^verbatim>\<open>submit_data\<close> from the assignment of the id to the response: the id is
  stored under a new key, the collection is loaded again, extended and saved.
\<close>

definition store_record ::
  "'f pyenv \<Rightarrow> io \<Rightarrow> (string \<times> 'f json) list \<Rightarrow> 'f world \<Rightarrow> (exc + 'f response) \<times> 'f world"
where
  "store_record env wr sd w =
     (case get_next_id env w of
        Inl e \<Rightarrow> (Inl e, w)
      | Inr nid \<Rightarrow>
          (case py_append (load_data w) (JObj (sd @ [(''id'', nid)])) of
             Inl e \<Rightarrow> (Inl e, w)
           | Inr all_data \<Rightarrow>
               (case save_data wr all_data w of
                  (False, w') \<Rightarrow>
                    (Inr (Response 500 [(''error'', JStr ''Failed to save data'')]), w')
                | (True, w') \<Rightarrow>
                    (Inr (Response 201
                       [(''success'', JBool True),
                        (''id'', nid),
                        (''message'', JStr ''Data received successfully'')]), w'))))"

text \<open>The body of the \<^verbatim>\<open>try\<close> block of \<^verbatim>\<open>submit_data\<close>: a response or the exception raised.\<close>

definition submit_try ::
  "'f pyenv \<Rightarrow> string \<Rightarrow> string \<Rightarrow> io \<Rightarrow> 'f request \<Rightarrow> 'f world \<Rightarrow> (exc + 'f response) \<times> 'f world"
where
  "submit_try env now1 now2 wr req w =
     (case req of
        NotJson \<Rightarrow>
          (Inr (Response 400 [(''error'', JStr ''Content-Type must be application/json'')]), w)
      | BadJson \<Rightarrow> (Inl BadRequest, w)
      | Json data \<Rightarrow>
          if \<not> truthy env data
          then (Inr (Response 400 [(''error'', JStr ''Empty request body'')]), w)
          else
            (case data of
               JObj kv \<Rightarrow>
                 if missing_fields env kv \<noteq> []
                 then (Inr (Response 400
                         [(''error'', JStr ''Missing required fields''),
                          (''missing_fields'', JList (map JStr (missing_fields env kv)))]), w)
                 else (case sanitized_data env now1 now2 kv of
                         Inl e \<Rightarrow> (Inl e, w)
                       | Inr sd \<Rightarrow> store_record env wr sd w)
             | _ \<Rightarrow> (Inl AttributeError, w)))"

text \<open>\<^verbatim>\<open>submit_data\<close>: ValueError is answered by 400, every other exception by 500.\<close>

definition submit_data ::
  "'f pyenv \<Rightarrow> string \<Rightarrow> string \<Rightarrow> io \<Rightarrow> 'f request \<Rightarrow> 'f world \<Rightarrow> 'f response \<times> 'f world"
where
  "submit_data env now1 now2 wr req w =
     (case submit_try env now1 now2 wr req w of
        (Inr r, w') \<Rightarrow> (r, w')
      | (Inl (ValueError msg), w') \<Rightarrow>
          (Response 400 [(''error'', JStr (''Validation error: '' @ msg))], w')
      | (Inl _, w') \<Rightarrow> (Response 500 [(''error'', JStr ''Internal server error'')], w'))"

text \<open>\<^verbatim>\<open>get_all_data\<close>\<close>

definition get_all_data :: "'f world \<Rightarrow> 'f response" where
  "get_all_data w =
     (let data = load_data w
      in case py_len data of
           Inl e \<Rightarrow> Response 500 [(''error'', JStr ''Failed to retrieve data'')]
         | Inr n \<Rightarrow>
             Response 200 [(''success'', JBool True), (''count'', JInt (int n)), (''data'', data)])"

text \<open>\<^verbatim>\<open>next((item for item in all_data if item.get('id') == data_id), None)\<close>\<close>

fun find_item :: "'f pyenv \<Rightarrow> int \<Rightarrow> 'f json list \<Rightarrow> exc + 'f json" where
  "find_item env n [] = Inr JNull"
| "find_item env n (JObj kv # xs) =
     (if py_eq_int env (dict_get kv ''id'' JNull) n then Inr (JObj kv) else find_item env n xs)"
| "find_item env n (x # xs) = Inl AttributeError"

text \<open>\<^verbatim>\<open>get_data_by_id\<close>\<close>

definition get_data_by_id :: "'f pyenv \<Rightarrow> int \<Rightarrow> 'f world \<Rightarrow> 'f response" where
  "get_data_by_id env data_id w =
     (case py_iter (load_data w) of
        Inl e \<Rightarrow> Response 500 [(''error'', JStr ''Failed to retrieve data'')]
      | Inr items \<Rightarrow>
          (case find_item env data_id items of
             Inl e \<Rightarrow> Response 500 [(''error'', JStr ''Failed to retrieve data'')]
           | Inr data_item \<Rightarrow>
               if \<not> truthy env data_item
               then Response 404 [(''error'', JStr ''Data not found'')]
               else Response 200 [(''success'', JBool True), (''data'', data_item)]))"

section \<open>Notions used to state the properties\<close>

text \<open>
  A request body passes validation when it gets past the three checks of
  \<^verbatim>\<open>submit_data\<close>: it is truthy, it is a dictionary with no missing required field, and
  \<^verbatim>\<open>float\<close> does not raise on its \<^verbatim>\<open>value\<close>.
\<close>

definition valid_body :: "'f pyenv \<Rightarrow> 'f json \<Rightarrow> bool" where
  "valid_body env data =
     (truthy env data \<and>
      (case data of
         JObj kv \<Rightarrow>
           missing_fields env kv = [] \<and>
           (case clean_value env kv of Inr v \<Rightarrow> True | Inl e \<Rightarrow> False)
       | _ \<Rightarrow> False))"

definition valid_request :: "'f pyenv \<Rightarrow> 'f request \<Rightarrow> bool" where
  "valid_request env req = (case req of Json data \<Rightarrow> valid_body env data | _ \<Rightarrow> False)"






subsection \<open>A runtime for the examples\<close>

text \<open>
  The examples run the model with a small runtime whose floats are the integers: a string
  converts when it is a non-empty run of decimal digits, every integer converts, and
  numbers compare by their values. It answers as CPython does on every input the
  examples give it.
\<close>

definition digit_str :: "string \<Rightarrow> bool" where
  "digit_str s =
     (s \<noteq> [] \<and> list_all (\<lambda>c. 48 \<le> (of_char c :: nat) \<and> (of_char c :: nat) \<le> 57) s)"

definition digits_val :: "string \<Rightarrow> int" where
  "digits_val s = foldl (\<lambda>a c. 10 * a + (int (of_char c) - 48)) 0 s"

fun as_num :: "int json \<Rightarrow> int option" where
  "as_num (JFloat x) = Some x"
| "as_num v = as_int v"

definition sample_env :: "int pyenv" where
  "sample_env =
     \<lparr>float_of_str = (\<lambda>s. if digit_str s then Some (digits_val s) else None),
      float_of_int = Some,
      float_is_zero = (\<lambda>x. x = 0),
      float_eq_int = (=),
      str_other = (\<lambda>v. case v of JFloat x \<Rightarrow> str_int x @ ''.0'' | _ \<Rightarrow> ''...''),
      repr_str = (\<lambda>s. [CHR 0x27] @ s @ [CHR 0x27]),
      gt_other =
        (\<lambda>a b. case (as_num a, as_num b) of
                  (Some x, Some y) \<Rightarrow> Inr (y < x)
                | _ \<Rightarrow> Inl TypeError),
      add1_other = (\<lambda>a. case a of JFloat x \<Rightarrow> Inr (JFloat (x + 1)) | _ \<Rightarrow> Inl TypeError)\<rparr>"

text \<open>The store as the start-up code leaves it: the file holds the empty list.\<close>

definition empty_world :: "int world" where
  "empty_world = \<lparr>disk = Holds (JList []), save_calls = []\<rparr>"

section \<open>How a submission can end\<close>

lemma dict_get_simps [simp]:
  "dict_get [] k d = d"
  "dict_get ((k', v) # kv) k d = (if k' = k then v else dict_get kv k d)"
  by (simp_all add: dict_get_def)

lemma py_append_Inr:
  "py_append d x = Inr r \<Longrightarrow> \<exists>items. d = JList items \<and> r = JList (items @ [x])"
  by (cases d) auto

lemma store_record_cases:
  assumes "store_record env wr sd w = (res, w')"
  shows "(\<exists>e. res = Inl e \<and> w' = w) \<or>
     (\<exists>nid items. get_next_id env w = Inr nid \<and> load_data w = JList items \<and>
        w' = snd (save_data wr (JList (items @ [JObj (sd @ [(''id'', nid)])])) w) \<and>
        res = Inr (if fst (save_data wr (JList (items @ [JObj (sd @ [(''id'', nid)])])) w)
                   then Response 201 [(''success'', JBool True), (''id'', nid),
                          (''message'', JStr ''Data received successfully'')]
                   else Response 500 [(''error'', JStr ''Failed to save data'')]))"
  using assms unfolding store_record_def
  by (auto split: sum.splits prod.splits bool.splits dest!: py_append_Inr)

text \<open>
  The \<^verbatim>\<open>try\<close> block ends in one of three ways: an exception with the world untouched, a
  400 response with the world untouched, or a call of \<^verbatim>\<open>save_data\<close> on the loaded list
  extended by the new record.
\<close>

lemma submit_try_cases:
  assumes "submit_try env now1 now2 wr req w = (res, w')"
  shows "(w' = w \<and> (\<exists>e. res = Inl e)) \<or>
     (w' = w \<and> (\<exists>p. res = Inr (Response 400 p))) \<or>
     (\<exists>kv sd nid items. req = Json (JObj kv) \<and> kv \<noteq> [] \<and> missing_fields env kv = [] \<and>
        sanitized_data env now1 now2 kv = Inr sd \<and>
        get_next_id env w = Inr nid \<and> load_data w = JList items \<and>
        w' = snd (save_data wr (JList (items @ [JObj (sd @ [(''id'', nid)])])) w) \<and>
        res = Inr (if fst (save_data wr (JList (items @ [JObj (sd @ [(''id'', nid)])])) w)
                   then Response 201 [(''success'', JBool True), (''id'', nid),
                          (''message'', JStr ''Data received successfully'')]
                   else Response 500 [(''error'', JStr ''Failed to save data'')]))"
proof (cases req)
  case NotJson
  with assms show ?thesis by (auto simp: submit_try_def)
next
  case BadJson
  with assms show ?thesis by (auto simp: submit_try_def)
next
  case (Json data)
  show ?thesis
  proof (cases "truthy env data")
    case False
    with assms Json show ?thesis by (auto simp: submit_try_def)
  next
    case True
    show ?thesis
    proof (cases data)
      case (JObj kv)
      with True have ne: "kv \<noteq> []" by simp
      show ?thesis
      proof (cases "missing_fields env kv = []")
        case False
        with assms Json JObj ne show ?thesis by (auto simp: submit_try_def)
      next
        case mf: True
        show ?thesis
        proof (cases "sanitized_data env now1 now2 kv")
          case (Inl e)
          with assms Json JObj ne mf show ?thesis by (auto simp: submit_try_def)
        next
          case (Inr sd)
          with assms Json JObj ne mf have "store_record env wr sd w = (res, w')"
            by (simp add: submit_try_def)
          from store_record_cases[OF this] Json JObj ne mf Inr show ?thesis by blast
        qed
      qed
    qed (use assms Json True in \<open>auto simp: submit_try_def\<close>)
  qed
qed

lemma submit_data_cases:
  assumes "submit_data env now1 now2 wr req w = (r, w')"
  shows "(w' = w \<and>
          (status_code r = 400 \<or> r = Response 500 [(''error'', JStr ''Internal server error'')])) \<or>
     (\<exists>kv sd nid items. req = Json (JObj kv) \<and> kv \<noteq> [] \<and> missing_fields env kv = [] \<and>
        sanitized_data env now1 now2 kv = Inr sd \<and>
        get_next_id env w = Inr nid \<and> load_data w = JList items \<and>
        w' = snd (save_data wr (JList (items @ [JObj (sd @ [(''id'', nid)])])) w) \<and>
        r = (if fst (save_data wr (JList (items @ [JObj (sd @ [(''id'', nid)])])) w)
             then Response 201 [(''success'', JBool True), (''id'', nid),
                    (''message'', JStr ''Data received successfully'')]
             else Response 500 [(''error'', JStr ''Failed to save data'')]))"
proof -
  obtain res w1 where st: "submit_try env now1 now2 wr req w = (res, w1)"
    by (cases "submit_try env now1 now2 wr req w")
  from submit_try_cases[OF st] assms st show ?thesis
    unfolding submit_data_def
    by (elim disjE exE conjE) (auto split: exc.splits simp del: save_data.simps)
qed

section \<open>Required fields\<close>

text \<open>
  C2, as the claim states it, fails: the empty object is falsy, so \<^verbatim>\<open>if not data\<close> answers
  it with \<^verbatim>\<open>Empty request body\<close> before the required fields are looked at, and the response
  has no \<^verbatim>\<open>missing_fields\<close> entry.
\<close>

theorem C2_empty_object_counterexample:
  "fst (submit_data sample_env ''2024-01-01T00:00:00'' ''2024-01-01T00:00:01'' IoOk
          (Json (JObj [])) empty_world)
     = Response 400 [(''error'', JStr ''Empty request body'')]
   \<and> map_of (payload (fst (submit_data sample_env ''2024-01-01T00:00:00''
          ''2024-01-01T00:00:01'' IoOk (Json (JObj [])) empty_world))) ''missing_fields'' = None"
  by (simp add: submit_data_def submit_try_def)

text \<open>
  C2, amended: the empty object is answered by 400 \<^verbatim>\<open>Empty request body\<close>; an object that is
  not empty and has neither a truthy \<^verbatim>\<open>title\<close> nor a truthy \<^verbatim>\<open>category\<close> is answered by 400
  with \<^verbatim>\<open>missing_fields\<close> equal to \<^verbatim>\<open>["title", "category"]\<close>: both names together, in this
  order. Nothing is written in either case.
\<close>

theorem C2_missing_both_reported:
  "submit_data env now1 now2 wr (Json (JObj [])) w
     = (Response 400 [(''error'', JStr ''Empty request body'')], w) \<and>
   (kv \<noteq> [] \<and> \<not> truthy env (dict_get kv ''title'' JNull)
      \<and> \<not> truthy env (dict_get kv ''category'' JNull) \<longrightarrow>
    submit_data env now1 now2 wr (Json (JObj kv)) w
     = (Response 400 [(''error'', JStr ''Missing required fields''),
                      (''missing_fields'', JList [JStr ''title'', JStr ''category''])], w))"
  by (simp add: submit_data_def submit_try_def missing_fields_def required_fields_def)

theorem C2_missing_both_reported_witness:
  "submit_data sample_env ''t1'' ''t2'' IoOk (Json (JObj [(''memo'', JStr ''x'')])) empty_world
     = (Response 400 [(''error'', JStr ''Missing required fields''),
                      (''missing_fields'', JList [JStr ''title'', JStr ''category''])], empty_world)"
  using C2_missing_both_reported
          [of sample_env "''t1''" "''t2''" IoOk empty_world "[(''memo'', JStr ''x'')]"]
  by simp

lemma map_of_filter_key:
  "map_of (filter (\<lambda>p. fst p \<noteq> k) kv) k' = (if k' = k then None else map_of kv k')"
  by (induction kv) auto

lemma dict_get_remove:
  "dict_get (filter (\<lambda>p. fst p \<noteq> k) kv) k' d = (if k' = k then d else dict_get kv k' d)"
  by (simp add: dict_get_def map_of_filter_key)

text \<open>
  C10: when \<^verbatim>\<open>title\<close> or \<^verbatim>\<open>category\<close> is a key of the submitted object and its value is falsy
  (\<^verbatim>\<open>0\<close>, \<^verbatim>\<open>0.0\<close>, \<^verbatim>\<open>false\<close>, \<^verbatim>\<open>null\<close>, the empty string, list or object), the response is
  400 \<^verbatim>\<open>Missing required fields\<close>, the name of the field is in \<^verbatim>\<open>missing_fields\<close>, and the
  list is the one computed for the object without that key.
\<close>

theorem C10_falsy_required_reported_missing:
  assumes "field \<in> set required_fields" and "map_of kv field = Some v" and "\<not> truthy env v"
  shows "submit_data env now1 now2 wr (Json (JObj kv)) w
       = (Response 400 [(''error'', JStr ''Missing required fields''),
                        (''missing_fields'', JList (map JStr (missing_fields env kv)))], w)
     \<and> field \<in> set (missing_fields env kv)
     \<and> missing_fields env kv = missing_fields env (filter (\<lambda>p. fst p \<noteq> field) kv)"
proof -
  from assms(2) have ne: "kv \<noteq> []" by auto
  from assms(2,3) have falsy: "\<not> truthy env (dict_get kv field JNull)"
    by (simp add: dict_get_def)
  with assms(1) have mem: "field \<in> set (missing_fields env kv)"
    by (simp add: missing_fields_def)
  then have "missing_fields env kv \<noteq> []" by auto
  with ne have 1: "submit_data env now1 now2 wr (Json (JObj kv)) w
       = (Response 400 [(''error'', JStr ''Missing required fields''),
                        (''missing_fields'', JList (map JStr (missing_fields env kv)))], w)"
    by (simp add: submit_data_def submit_try_def)
  have "\<And>f. (\<not> truthy env (dict_get (filter (\<lambda>p. fst p \<noteq> field) kv) f JNull))
             = (\<not> truthy env (dict_get kv f JNull))"
    using falsy by (simp add: dict_get_remove)
  then have 3: "missing_fields env kv = missing_fields env (filter (\<lambda>p. fst p \<noteq> field) kv)"
    by (simp add: missing_fields_def)
  from 1 mem 3 show ?thesis by simp
qed

theorem C10_falsy_required_reported_missing_witness:
  "submit_data sample_env ''t1'' ''t2'' IoOk
      (Json (JObj [(''title'', JInt 0), (''category'', JStr ''x'')])) empty_world
     = (Response 400 [(''error'', JStr ''Missing required fields''),
                      (''missing_fields'', JList [JStr ''title''])], empty_world)
   \<and> missing_fields sample_env [(''title'', JInt 0), (''category'', JStr ''x'')]
     = missing_fields sample_env [(''category'', JStr ''x'')]"
  using C10_falsy_required_reported_missing [of "''title''"
          "[(''title'', JInt 0), (''category'', JStr ''x'')]" "JInt 0" sample_env
          "''t1''" "''t2''" IoOk empty_world]
  by (simp add: required_fields_def missing_fields_def)

section \<open>Required and optional string fields\<close>

text \<open>A 201 response means that the write succeeded and what the file holds afterwards.\<close>

lemma submit_data_created:
  assumes "submit_data env now1 now2 wr req w = (r, w')" and "status_code r = 201"
  shows "\<exists>kv sd nid items. req = Json (JObj kv) \<and> kv \<noteq> [] \<and> missing_fields env kv = [] \<and>
        sanitized_data env now1 now2 kv = Inr sd \<and>
        get_next_id env w = Inr nid \<and> load_data w = JList items \<and> wr = IoOk \<and>
        w' = w\<lparr>disk := Holds (JList (items @ [JObj (sd @ [(''id'', nid)])])),
               save_calls := save_calls w @ [JList (items @ [JObj (sd @ [(''id'', nid)])])]\<rparr> \<and>
        r = Response 201 [(''success'', JBool True), (''id'', nid),
                    (''message'', JStr ''Data received successfully'')]"
  using submit_data_cases[OF assms(1)] assms(2)
  by (cases wr) (auto split: if_splits)

lemma missing_fields_Nil:
  "missing_fields env kv = [] \<longleftrightarrow>
     truthy env (dict_get kv ''title'' JNull) \<and> truthy env (dict_get kv ''category'' JNull)"
  by (simp add: missing_fields_def required_fields_def)

lemma truthy_dict_get:
  "truthy env (dict_get kv k JNull) \<Longrightarrow> \<exists>v. map_of kv k = Some v \<and> truthy env v \<and> (\<forall>d. dict_get kv k d = v)"
  by (cases "map_of kv k") (auto simp: dict_get_def)

lemma all_dropWhile_iff: "(\<forall>x\<in>set (dropWhile P s). P x) \<longleftrightarrow> (\<forall>x\<in>set s. P x)"
  by (induction s) auto

lemma strip_Nil_iff: "strip s = [] \<longleftrightarrow> (\<forall>c\<in>set s. is_space c)"
  by (simp add: strip_def dropWhile_eq_Nil_conv all_dropWhile_iff)

lemma sanitized_data_fields:
  assumes "sanitized_data env now1 now2 kv = Inr sd"
  shows "\<exists>v. clean_value env kv = Inr v \<and>
     sd = [(''title'', JStr (clean_str env kv ''title'')),
           (''description'', clean_opt env kv ''description''),
           (''category'', JStr (clean_str env kv ''category'')),
           (''value'', v),
           (''memo'', clean_opt env kv ''memo''),
           (''timestamp'', dict_get kv ''timestamp'' (JStr now1)),
           (''received_at'', JStr now2)]"
  using assms by (auto simp: sanitized_data_def split: sum.splits)

text \<open>
C1, as the claim states it, fails: the required-field check tests the submitted value, before
it is converted to a string and trimmed. A title of three spaces is truthy, passes the check,
and the record is stored with the empty title.
\<close>

theorem C1_whitespace_title_counterexample:
  "submit_data sample_env ''2024-01-01T00:00:00'' ''2024-01-01T00:00:01'' IoOk
     (Json (JObj [(''title'', JStr ''   ''), (''category'', JStr ''x'')])) empty_world
   = (Response 201 [(''success'', JBool True), (''id'', JInt 1),
                    (''message'', JStr ''Data received successfully'')],
      \<lparr>disk = Holds (JList [JObj
          [(''title'', JStr ''''), (''description'', JNull), (''category'', JStr ''x''),
           (''value'', JNull), (''memo'', JNull), (''timestamp'', JStr ''2024-01-01T00:00:00''),
           (''received_at'', JStr ''2024-01-01T00:00:01''), (''id'', JInt 1)]]),
        save_calls = [JList [JObj
          [(''title'', JStr ''''), (''description'', JNull), (''category'', JStr ''x''),
           (''value'', JNull), (''memo'', JNull), (''timestamp'', JStr ''2024-01-01T00:00:00''),
           (''received_at'', JStr ''2024-01-01T00:00:01''), (''id'', JInt 1)]]]\<rparr>)"
  by (simp add: submit_data_def submit_try_def missing_fields_def required_fields_def
        sanitized_data_def clean_value_def clean_str_def clean_opt_def store_record_def
        get_next_id_def load_data_def empty_world_def strip_def is_space_def)

text \<open>
C1, amended: a required field (\<^verbatim>\<open>title\<close>, \<^verbatim>\<open>category\<close>) that is absent from a non-empty
object, or whose submitted value is falsy, makes Submit answer 400 \<^verbatim>\<open>Missing required fields\<close>
and leave the world as it was. The test is made on the submitted value, before trimming.
When a record is persisted (201), \<^verbatim>\<open>title\<close> and \<^verbatim>\<open>category\<close> were submitted with truthy values
and the stored fields are their string forms, trimmed; for a submitted string the stored
field is empty exactly when the string consists of whitespace only.
\<close>

theorem C1_required_checked_before_trim:
  assumes "submit_data env now1 now2 wr (Json (JObj kv)) w = (r, w')"
  shows "(kv \<noteq> [] \<and> (\<exists>f\<in>set required_fields. \<not> truthy env (dict_get kv f JNull)) \<longrightarrow>
            r = Response 400 [(''error'', JStr ''Missing required fields''),
                              (''missing_fields'', JList (map JStr (missing_fields env kv)))]
            \<and> w' = w)
       \<and> (status_code r = 201 \<longrightarrow>
            (\<exists>items rec t c. load_data w = JList items
               \<and> disk w' = Holds (JList (items @ [JObj rec]))
               \<and> map_of kv ''title'' = Some t \<and> truthy env t
               \<and> map_of kv ''category'' = Some c \<and> truthy env c
               \<and> map_of rec ''title'' = Some (JStr (strip (py_str env t)))
               \<and> map_of rec ''category'' = Some (JStr (strip (py_str env c)))
               \<and> (\<forall>s. t = JStr s \<longrightarrow>
                     (map_of rec ''title'' = Some (JStr []) \<longleftrightarrow> (\<forall>ch\<in>set s. is_space ch)))
               \<and> (\<forall>s. c = JStr s \<longrightarrow>
                     (map_of rec ''category'' = Some (JStr []) \<longleftrightarrow> (\<forall>ch\<in>set s. is_space ch)))))"
proof -
  have 1: "kv \<noteq> [] \<and> (\<exists>f\<in>set required_fields. \<not> truthy env (dict_get kv f JNull)) \<longrightarrow>
            r = Response 400 [(''error'', JStr ''Missing required fields''),
                              (''missing_fields'', JList (map JStr (missing_fields env kv)))]
            \<and> w' = w"
  proof
    assume a: "kv \<noteq> [] \<and> (\<exists>f\<in>set required_fields. \<not> truthy env (dict_get kv f JNull))"
    then have "missing_fields env kv \<noteq> []"
      by (auto simp: missing_fields_def filter_empty_conv)
    with a assms show "r = Response 400 [(''error'', JStr ''Missing required fields''),
                              (''missing_fields'', JList (map JStr (missing_fields env kv)))]
            \<and> w' = w"
      by (auto simp: submit_data_def submit_try_def)
  qed
  have 2: "status_code r = 201 \<longrightarrow>
            (\<exists>items rec t c. load_data w = JList items
               \<and> disk w' = Holds (JList (items @ [JObj rec]))
               \<and> map_of kv ''title'' = Some t \<and> truthy env t
               \<and> map_of kv ''category'' = Some c \<and> truthy env c
               \<and> map_of rec ''title'' = Some (JStr (strip (py_str env t)))
               \<and> map_of rec ''category'' = Some (JStr (strip (py_str env c)))
               \<and> (\<forall>s. t = JStr s \<longrightarrow>
                     (map_of rec ''title'' = Some (JStr []) \<longleftrightarrow> (\<forall>ch\<in>set s. is_space ch)))
               \<and> (\<forall>s. c = JStr s \<longrightarrow>
                     (map_of rec ''category'' = Some (JStr []) \<longleftrightarrow> (\<forall>ch\<in>set s. is_space ch))))"
  proof
    assume "status_code r = 201"
    from submit_data_created[OF assms this] obtain sd nid items where
      mf: "missing_fields env kv = []" and sd: "sanitized_data env now1 now2 kv = Inr sd"
      and ld: "load_data w = JList items"
      and w': "disk w' = Holds (JList (items @ [JObj (sd @ [(''id'', nid)])]))"
      by auto
    from mf obtain t c where t: "map_of kv ''title'' = Some t" "truthy env t" "\<forall>d. dict_get kv ''title'' d = t"
      and c: "map_of kv ''category'' = Some c" "truthy env c" "\<forall>d. dict_get kv ''category'' d = c"
      unfolding missing_fields_Nil by (blast dest: truthy_dict_get)
    from sanitized_data_fields[OF sd] t c
    have "map_of (sd @ [(''id'', nid)]) ''title'' = Some (JStr (strip (py_str env t)))"
      and "map_of (sd @ [(''id'', nid)]) ''category'' = Some (JStr (strip (py_str env c)))"
      by (auto simp: clean_str_def)
    with ld w' t c show "\<exists>items rec t c. load_data w = JList items
               \<and> disk w' = Holds (JList (items @ [JObj rec]))
               \<and> map_of kv ''title'' = Some t \<and> truthy env t
               \<and> map_of kv ''category'' = Some c \<and> truthy env c
               \<and> map_of rec ''title'' = Some (JStr (strip (py_str env t)))
               \<and> map_of rec ''category'' = Some (JStr (strip (py_str env c)))
               \<and> (\<forall>s. t = JStr s \<longrightarrow>
                     (map_of rec ''title'' = Some (JStr []) \<longleftrightarrow> (\<forall>ch\<in>set s. is_space ch)))
               \<and> (\<forall>s. c = JStr s \<longrightarrow>
                     (map_of rec ''category'' = Some (JStr []) \<longleftrightarrow> (\<forall>ch\<in>set s. is_space ch)))"
      by (intro exI[of _ items] exI[of _ "sd @ [(''id'', nid)]"] exI[of _ t] exI[of _ c])
         (simp add: strip_Nil_iff)
  qed
  from 1 2 show ?thesis by (rule conjI)
qed


lemmas run_defs =
  submit_data_def submit_try_def missing_fields_def required_fields_def
  sanitized_data_def clean_value_def clean_str_def clean_opt_def store_record_def
  get_next_id_def load_data_def empty_world_def strip_def is_space_def

theorem C1_required_checked_before_trim_witness:
  "submit_data sample_env ''t1'' ''t2'' IoOk
      (Json (JObj [(''title'', JStr []), (''category'', JStr ''x'')])) empty_world
     = (Response 400 [(''error'', JStr ''Missing required fields''),
                      (''missing_fields'', JList [JStr ''title''])], empty_world)
   \<and> (\<exists>items rec.
         disk (snd (submit_data sample_env ''t1'' ''t2'' IoOk
           (Json (JObj [(''title'', JStr '' A ''), (''category'', JStr '' B '')])) empty_world))
           = Holds (JList (items @ [JObj rec]))
         \<and> map_of rec ''title'' = Some (JStr ''A'')
         \<and> map_of rec ''category'' = Some (JStr ''B''))"
proof -
  let ?kv1 = "[(''title'', JStr []), (''category'', JStr ''x'')] :: (string \<times> int json) list"
  let ?kv2 = "[(''title'', JStr '' A ''), (''category'', JStr '' B '')] :: (string \<times> int json) list"
  obtain r1 w1 where e1:
    "submit_data sample_env ''t1'' ''t2'' IoOk (Json (JObj ?kv1)) empty_world = (r1, w1)"
    by (cases "submit_data sample_env ''t1'' ''t2'' IoOk (Json (JObj ?kv1)) empty_world")
  have a: "?kv1 \<noteq> [] \<and> (\<exists>f\<in>set required_fields. \<not> truthy sample_env (dict_get ?kv1 f JNull))"
    by (simp add: required_fields_def)
  from C1_required_checked_before_trim[OF e1] a e1
  have part1: "submit_data sample_env ''t1'' ''t2'' IoOk (Json (JObj ?kv1)) empty_world
     = (Response 400 [(''error'', JStr ''Missing required fields''),
                      (''missing_fields'', JList [JStr ''title''])], empty_world)"
    by (simp add: missing_fields_def required_fields_def)
  obtain r2 w2 where e2:
    "submit_data sample_env ''t1'' ''t2'' IoOk (Json (JObj ?kv2)) empty_world = (r2, w2)"
    by (cases "submit_data sample_env ''t1'' ''t2'' IoOk (Json (JObj ?kv2)) empty_world")
  have s2: "status_code r2 = 201"
    using e2 by (auto simp: run_defs)
  from C1_required_checked_before_trim[OF e2] s2 obtain items rec t c where
    "disk w2 = Holds (JList (items @ [JObj rec]))"
    "map_of ?kv2 ''title'' = Some t" "map_of ?kv2 ''category'' = Some c"
    "map_of rec ''title'' = Some (JStr (strip (py_str sample_env t)))"
    "map_of rec ''category'' = Some (JStr (strip (py_str sample_env c)))"
    by blast
  then have "disk w2 = Holds (JList (items @ [JObj rec])) \<and> map_of rec ''title'' = Some (JStr ''A'')
         \<and> map_of rec ''category'' = Some (JStr ''B'')"
    by (auto simp: strip_def is_space_def)
  with e2 part1 show ?thesis by auto
qed

text \<open>
C3, as the claim states it, fails: \<^verbatim>\<open>description\<close> and \<^verbatim>\<open>memo\<close> are tested before they are
trimmed. A whitespace-only string is truthy, and what is stored is the empty string, not null.
\<close>

theorem C3_whitespace_description_counterexample:
  "submit_data sample_env ''2024-01-01T00:00:00'' ''2024-01-01T00:00:01'' IoOk
     (Json (JObj [(''title'', JStr ''a''), (''category'', JStr ''b''),
                  (''description'', JStr ''  ''), (''memo'', JStr '' '')])) empty_world
   = (Response 201 [(''success'', JBool True), (''id'', JInt 1),
                    (''message'', JStr ''Data received successfully'')],
      \<lparr>disk = Holds (JList [JObj
          [(''title'', JStr ''a''), (''description'', JStr []), (''category'', JStr ''b''),
           (''value'', JNull), (''memo'', JStr []), (''timestamp'', JStr ''2024-01-01T00:00:00''),
           (''received_at'', JStr ''2024-01-01T00:00:01''), (''id'', JInt 1)]]),
        save_calls = [JList [JObj
          [(''title'', JStr ''a''), (''description'', JStr []), (''category'', JStr ''b''),
           (''value'', JNull), (''memo'', JStr []), (''timestamp'', JStr ''2024-01-01T00:00:00''),
           (''received_at'', JStr ''2024-01-01T00:00:01''), (''id'', JInt 1)]]]\<rparr>)"
  by (simp add: run_defs)

text \<open>
C3, amended: in a persisted record each of \<^verbatim>\<open>description\<close> and \<^verbatim>\<open>memo\<close> is null when the
field is absent or its submitted value is falsy (null, the empty string, 0, false, an empty
list or object), and is the trimmed string form of the submitted value otherwise. The test
is made before trimming: for a submitted string the stored field is the empty string exactly
when the string is not empty and consists of whitespace only.
\<close>

theorem C3_optional_checked_before_trim:
  assumes "submit_data env now1 now2 wr (Json (JObj kv)) w = (r, w')"
    and "status_code r = 201"
  shows "\<exists>items rec. load_data w = JList items
           \<and> disk w' = Holds (JList (items @ [JObj rec]))
           \<and> (\<forall>k\<in>{''description'', ''memo''}.
                 (\<not> truthy env (dict_get kv k JNull) \<longrightarrow> map_of rec k = Some JNull)
               \<and> (truthy env (dict_get kv k JNull) \<longrightarrow>
                    map_of rec k = Some (JStr (strip (py_str env (dict_get kv k JNull)))))
               \<and> (\<forall>s. map_of kv k = Some (JStr s) \<longrightarrow>
                    (map_of rec k = Some (JStr []) \<longleftrightarrow> s \<noteq> [] \<and> (\<forall>ch\<in>set s. is_space ch))))"
proof -
  from submit_data_created[OF assms] obtain sd nid items where
    sd: "sanitized_data env now1 now2 kv = Inr sd"
    and ld: "load_data w = JList items"
    and w': "disk w' = Holds (JList (items @ [JObj (sd @ [(''id'', nid)])]))"
    by auto
  have opt: "\<And>k. truthy env (dict_get kv k JNull) \<Longrightarrow>
               clean_opt env kv k = JStr (strip (py_str env (dict_get kv k JNull)))"
    by (auto simp: clean_opt_def clean_str_def dest: truthy_dict_get)
  have str: "\<And>k s. map_of kv k = Some (JStr s) \<Longrightarrow>
               (clean_opt env kv k = JStr [] \<longleftrightarrow> s \<noteq> [] \<and> (\<forall>ch\<in>set s. is_space ch))"
    by (auto simp: clean_opt_def clean_str_def dict_get_def strip_Nil_iff)
  from sanitized_data_fields[OF sd]
  have d: "map_of (sd @ [(''id'', nid)]) ''description'' = Some (clean_opt env kv ''description'')"
    and m: "map_of (sd @ [(''id'', nid)]) ''memo'' = Some (clean_opt env kv ''memo'')"
    by auto
  have "\<forall>k\<in>{''description'', ''memo''}.
                 (\<not> truthy env (dict_get kv k JNull) \<longrightarrow> map_of (sd @ [(''id'', nid)]) k = Some JNull)
               \<and> (truthy env (dict_get kv k JNull) \<longrightarrow>
                    map_of (sd @ [(''id'', nid)]) k = Some (JStr (strip (py_str env (dict_get kv k JNull)))))
               \<and> (\<forall>s. map_of kv k = Some (JStr s) \<longrightarrow>
                    (map_of (sd @ [(''id'', nid)]) k = Some (JStr []) \<longleftrightarrow> s \<noteq> [] \<and> (\<forall>ch\<in>set s. is_space ch)))"
    using d m opt str by (simp add: clean_opt_def)
  with ld w' show ?thesis by blast
qed


theorem C3_optional_checked_before_trim_witness:
  "\<exists>items rec.
      disk (snd (submit_data sample_env ''t1'' ''t2'' IoOk
        (Json (JObj [(''title'', JStr ''a''), (''category'', JStr ''b''),
                     (''description'', JStr '' hello '')])) empty_world))
        = Holds (JList (items @ [JObj rec]))
      \<and> map_of rec ''description'' = Some (JStr ''hello'')
      \<and> map_of rec ''memo'' = Some JNull"
proof -
  let ?kv = "[(''title'', JStr ''a''), (''category'', JStr ''b''),
              (''description'', JStr '' hello '')] :: (string \<times> int json) list"
  obtain r w' where e:
    "submit_data sample_env ''t1'' ''t2'' IoOk (Json (JObj ?kv)) empty_world = (r, w')"
    by (cases "submit_data sample_env ''t1'' ''t2'' IoOk (Json (JObj ?kv)) empty_world")
  have s: "status_code r = 201"
    using e by (auto simp: run_defs)
  from C3_optional_checked_before_trim[OF e s] obtain items rec where
    d: "disk w' = Holds (JList (items @ [JObj rec]))"
    and f: "\<forall>k\<in>{''description'', ''memo''}.
                 (\<not> truthy sample_env (dict_get ?kv k JNull) \<longrightarrow> map_of rec k = Some JNull)
               \<and> (truthy sample_env (dict_get ?kv k JNull) \<longrightarrow>
                    map_of rec k = Some (JStr (strip (py_str sample_env (dict_get ?kv k JNull)))))"
    by blast
  from f have "map_of rec ''description'' = Some (JStr ''hello'')"
    by (auto simp: strip_def is_space_def)
  moreover from f have "map_of rec ''memo'' = Some JNull"
    by auto
  ultimately show ?thesis using d e by auto
qed

section \<open>The \<^verbatim>\<open>value\<close> field\<close>

text \<open>
  A string that \<^verbatim>\<open>float\<close> rejects raises ValueError: the response is 400, its message ends
  with the \<^verbatim>\<open>repr\<close> of the string, and nothing is written.
\<close>

lemma value_string_rejected:
  assumes "kv \<noteq> []" and "missing_fields env kv = []"
    and "map_of kv ''value'' = Some (JStr s)" and "float_of_str env s = None"
  shows "submit_data env now1 now2 wr (Json (JObj kv)) w
       = (Response 400 [(''error'',
            JStr (''Validation error: could not convert string to float: '' @ repr_str env s))], w)"
  using assms
  by (simp add: submit_data_def submit_try_def sanitized_data_def clean_value_def dict_get_def)

text \<open>
C4 at a value that is neither null nor a string nor a number: \<^verbatim>\<open>float([1])\<close> raises TypeError,
which \<^verbatim>\<open>except ValueError\<close> does not catch. The response is 500 \<^verbatim>\<open>Internal server error\<close>,
not a 400 naming the value. Nothing is written.
\<close>

theorem C4_list_value_internal_error:
  "submit_data env now1 now2 wr
     (Json (JObj [(''title'', JStr ''A''), (''category'', JStr ''B''), (''value'', JList [JInt 1])])) w
   = (Response 500 [(''error'', JStr ''Internal server error'')], w)"
  by (simp add: submit_data_def submit_try_def missing_fields_def required_fields_def
        sanitized_data_def clean_value_def)

theorem C4_list_value_internal_error_witness:
  "submit_data sample_env ''t1'' ''t2'' IoOk
     (Json (JObj [(''title'', JStr ''A''), (''category'', JStr ''B''), (''value'', JList [JInt 1])]))
     empty_world
   = (Response 500 [(''error'', JStr ''Internal server error'')], empty_world)"
  by (rule C4_list_value_internal_error)

section \<open>Validation comes before persistence\<close>

lemma sanitized_data_valid:
  "sanitized_data env now1 now2 kv = Inr sd \<Longrightarrow> kv \<noteq> [] \<Longrightarrow> missing_fields env kv = [] \<Longrightarrow>
     valid_request env (Json (JObj kv))"
  by (auto simp: valid_request_def valid_body_def sanitized_data_def split: sum.splits)

text \<open>
C6: a request that does not pass validation (wrong content type, unparseable or falsy body,
a body that is no object, a missing required field, a \<^verbatim>\<open>value\<close> on which \<^verbatim>\<open>float\<close> raises)
leaves the world as it was: the file is unchanged and \<^verbatim>\<open>save_data\<close> is not called. The same
holds for every 400 response. The response 500 \<^verbatim>\<open>Failed to save data\<close> is given only to a
request that passed validation, after exactly one call of \<^verbatim>\<open>save_data\<close> that failed.
\<close>

theorem C6_validation_before_persistence:
  assumes "submit_data env now1 now2 wr req w = (r, w')"
  shows "(\<not> valid_request env req \<longrightarrow> w' = w)
       \<and> (status_code r = 400 \<longrightarrow> w' = w)
       \<and> (r = Response 500 [(''error'', JStr ''Failed to save data'')] \<longrightarrow>
            valid_request env req \<and> wr \<noteq> IoOk \<and> length (save_calls w') = Suc (length (save_calls w)))"
  using submit_data_cases[OF assms]
  by (cases wr) (auto dest: sanitized_data_valid)

theorem C6_validation_before_persistence_witness:
  "snd (submit_data sample_env ''t1'' ''t2'' IoOk
      (Json (JObj [(''title'', JStr ''A''), (''category'', JStr ''B''),
                   (''value'', JStr ''not-a-number'')])) empty_world) = empty_world
   \<and> valid_request sample_env (Json (JObj [(''title'', JStr ''A''), (''category'', JStr ''B'')]))
   \<and> length (save_calls (snd (submit_data sample_env ''t1'' ''t2'' WriteFails
      (Json (JObj [(''title'', JStr ''A''), (''category'', JStr ''B'')])) empty_world))) = 1"
proof -
  let ?bad = "Json (JObj [(''title'', JStr ''A''), (''category'', JStr ''B''),
                   (''value'', JStr ''not-a-number'')]) :: int request"
  let ?good = "Json (JObj [(''title'', JStr ''A''), (''category'', JStr ''B'')]) :: int request"
  obtain r1 w1 where e1: "submit_data sample_env ''t1'' ''t2'' IoOk ?bad empty_world = (r1, w1)"
    by (cases "submit_data sample_env ''t1'' ''t2'' IoOk ?bad empty_world")
  have "\<not> valid_request sample_env ?bad"
    by (simp add: valid_request_def valid_body_def clean_value_def sample_env_def digit_str_def)
  with C6_validation_before_persistence[OF e1] have "w1 = empty_world" by blast
  with e1 have 1: "snd (submit_data sample_env ''t1'' ''t2'' IoOk ?bad empty_world) = empty_world"
    by simp
  obtain r2 w2 where e2: "submit_data sample_env ''t1'' ''t2'' WriteFails ?good empty_world = (r2, w2)"
    by (cases "submit_data sample_env ''t1'' ''t2'' WriteFails ?good empty_world")
  have "r2 = Response 500 [(''error'', JStr ''Failed to save data'')]"
    using e2 by (auto simp: run_defs)
  with C6_validation_before_persistence[OF e2]
  have "valid_request sample_env ?good" and "length (save_calls w2) = Suc (length (save_calls empty_world))"
    by blast+
  with e2 1 show ?thesis by (simp add: empty_world_def)
qed

section \<open>The read path\<close>

text \<open>
  C7: \<^verbatim>\<open>load_data\<close> returns a value in every state of the file (its \<^verbatim>\<open>except Exception\<close> catches
  what \<^verbatim>\<open>open\<close> and \<^verbatim>\<open>json.load\<close> raise). When the file is missing, unreadable or corrupt, it
  returns the empty list; \<^verbatim>\<open>get_all_data\<close> then answers 200 with count 0 and no data, and
  \<^verbatim>\<open>get_data_by_id\<close> answers 404 \<^verbatim>\<open>Data not found\<close>: neither reports a storage error.
\<close>

theorem C7_load_failure_degrades_to_empty:
  assumes "read_file (disk w) = None"
  shows "load_data w = JList []
       \<and> get_all_data w
            = Response 200 [(''success'', JBool True), (''count'', JInt 0), (''data'', JList [])]
       \<and> get_data_by_id env data_id w = Response 404 [(''error'', JStr ''Data not found'')]"
  using assms by (simp add: load_data_def get_all_data_def get_data_by_id_def)

theorem C7_load_failure_degrades_to_empty_witness:
  "load_data \<lparr>disk = Corrupt, save_calls = []\<rparr> = (JList [] :: int json)
   \<and> get_all_data \<lparr>disk = NoFile, save_calls = []\<rparr>
        = (Response 200 [(''success'', JBool True), (''count'', JInt 0), (''data'', JList [])]
             :: int response)
   \<and> get_data_by_id sample_env 7 \<lparr>disk = Unreadable, save_calls = []\<rparr>
        = Response 404 [(''error'', JStr ''Data not found'')]"
  using C7_load_failure_degrades_to_empty [of "\<lparr>disk = Corrupt, save_calls = []\<rparr> :: int world" sample_env 7]
        C7_load_failure_degrades_to_empty [of "\<lparr>disk = NoFile, save_calls = []\<rparr> :: int world" sample_env 7]
        C7_load_failure_degrades_to_empty [of "\<lparr>disk = Unreadable, save_calls = []\<rparr> :: int world" sample_env 7]
  by simp

section \<open>What of the request reaches the store\<close>

text \<open>
  \<^verbatim>\<open>submit_data\<close> reads six keys of the submitted object. Two objects that agree on them
  leave the same world behind.
\<close>

lemma agree_dict_get:
  "map_of kv k = map_of kv' k \<Longrightarrow> dict_get kv k d = dict_get kv' k d"
  by (simp add: dict_get_def)

lemma submit_data_agree:
  assumes "\<forall>k\<in>{''title'', ''description'', ''category'', ''value'', ''memo'', ''timestamp''}.
             map_of kv k = map_of kv' k"
    and "kv \<noteq> []" and "kv' \<noteq> []"
  shows "submit_data env now1 now2 wr (Json (JObj kv')) w
       = submit_data env now1 now2 wr (Json (JObj kv)) w"
proof -
  from assms(1) have g: "\<And>k d. k \<in> {''title'', ''description'', ''category'', ''value'', ''memo'', ''timestamp''}
      \<Longrightarrow> dict_get kv' k d = dict_get kv k d"
    by (auto simp: dict_get_def)
  have m: "missing_fields env kv' = missing_fields env kv"
    by (simp add: missing_fields_def required_fields_def g)
  have v: "clean_value env kv' = clean_value env kv"
    by (simp add: clean_value_def g)
  have c: "clean_str env kv' ''title'' = clean_str env kv ''title''"
    "clean_str env kv' ''category'' = clean_str env kv ''category''"
    "clean_opt env kv' ''description'' = clean_opt env kv ''description''"
    "clean_opt env kv' ''memo'' = clean_opt env kv ''memo''"
    "dict_get kv' ''timestamp'' (JStr now1) = dict_get kv ''timestamp'' (JStr now1)"
    by (simp_all add: clean_opt_def clean_str_def g)
  have s: "sanitized_data env now1 now2 kv' = sanitized_data env now1 now2 kv"
    unfolding sanitized_data_def v c ..
  from assms(2,3) m s show ?thesis
    by (simp add: submit_data_def submit_try_def)
qed


lemma submit_data_title_missing:
  assumes "\<not> truthy env (dict_get kv ''title'' JNull)"
  shows "snd (submit_data env now1 now2 wr (Json (JObj kv)) w) = w"
proof (cases "kv = []")
  case True
  then show ?thesis by (simp add: submit_data_def submit_try_def)
next
  case False
  from assms have "missing_fields env kv \<noteq> []"
    by (simp add: missing_fields_def required_fields_def)
  with False show ?thesis by (simp add: submit_data_def submit_try_def)
qed

lemma submit_world_agree:
  assumes "\<forall>k\<in>{''title'', ''description'', ''category'', ''value'', ''memo'', ''timestamp''}.
             map_of kv k = map_of kv' k"
  shows "snd (submit_data env now1 now2 wr (Json (JObj kv')) w)
       = snd (submit_data env now1 now2 wr (Json (JObj kv)) w)"
proof (cases "kv \<noteq> [] \<and> kv' \<noteq> []")
  case True
  with submit_data_agree[OF assms] show ?thesis by simp
next
  case False
  then have "map_of kv ''title'' = None \<or> map_of kv' ''title'' = None" by auto
  with assms have "map_of kv ''title'' = None" "map_of kv' ''title'' = None" by auto
  then have "\<not> truthy env (dict_get kv ''title'' JNull)" "\<not> truthy env (dict_get kv' ''title'' JNull)"
    by (simp_all add: dict_get_def)
  then show ?thesis by (simp add: submit_data_title_missing)
qed

text \<open>
C8: two submitted objects that differ at most in the key \<^verbatim>\<open>received_at\<close>, handled with the
same clock readings, the same outcome of the write and the same store, leave the same world
behind: the same file content and the same call of \<^verbatim>\<open>save_data\<close>. When the record is
persisted (201), its \<^verbatim>\<open>received_at\<close> is the second clock reading of the handling.
\<close>

theorem C8_received_at_server_assigned:
  assumes "\<forall>k. k \<noteq> ''received_at'' \<longrightarrow> map_of kv k = map_of kv' k"
  shows "snd (submit_data env now1 now2 wr (Json (JObj kv)) w)
           = snd (submit_data env now1 now2 wr (Json (JObj kv')) w)
       \<and> (status_code (fst (submit_data env now1 now2 wr (Json (JObj kv)) w)) = 201 \<longrightarrow>
            (\<exists>items rec. load_data w = JList items
               \<and> disk (snd (submit_data env now1 now2 wr (Json (JObj kv)) w))
                    = Holds (JList (items @ [JObj rec]))
               \<and> map_of rec ''received_at'' = Some (JStr now2)))"
proof -
  from assms have "\<forall>k\<in>{''title'', ''description'', ''category'', ''value'', ''memo'', ''timestamp''}.
             map_of kv' k = map_of kv k"
    by simp
  from submit_world_agree[OF this]
  have 1: "snd (submit_data env now1 now2 wr (Json (JObj kv)) w)
           = snd (submit_data env now1 now2 wr (Json (JObj kv')) w)" .
  have 2: "status_code (fst (submit_data env now1 now2 wr (Json (JObj kv)) w)) = 201 \<longrightarrow>
            (\<exists>items rec. load_data w = JList items
               \<and> disk (snd (submit_data env now1 now2 wr (Json (JObj kv)) w))
                    = Holds (JList (items @ [JObj rec]))
               \<and> map_of rec ''received_at'' = Some (JStr now2))"
  proof
    assume s: "status_code (fst (submit_data env now1 now2 wr (Json (JObj kv)) w)) = 201"
    obtain r w' where e: "submit_data env now1 now2 wr (Json (JObj kv)) w = (r, w')"
      by (cases "submit_data env now1 now2 wr (Json (JObj kv)) w")
    with s have "status_code r = 201" by simp
    from submit_data_created[OF e this] obtain sd nid items where
      sd: "sanitized_data env now1 now2 kv = Inr sd"
      and ld: "load_data w = JList items"
      and w': "disk w' = Holds (JList (items @ [JObj (sd @ [(''id'', nid)])]))"
      by auto
    from sanitized_data_fields[OF sd]
    have "map_of (sd @ [(''id'', nid)]) ''received_at'' = Some (JStr now2)" by auto
    with ld w' e show "\<exists>items rec. load_data w = JList items
               \<and> disk (snd (submit_data env now1 now2 wr (Json (JObj kv)) w))
                    = Holds (JList (items @ [JObj rec]))
               \<and> map_of rec ''received_at'' = Some (JStr now2)"
      by auto
  qed
  from 1 2 show ?thesis by (rule conjI)
qed

theorem C8_received_at_server_assigned_witness:
  "snd (submit_data sample_env ''2024-05-01T10:00:00'' ''2024-05-01T10:00:01'' IoOk
      (Json (JObj [(''title'', JStr ''A''), (''category'', JStr ''B'')])) empty_world)
   = snd (submit_data sample_env ''2024-05-01T10:00:00'' ''2024-05-01T10:00:01'' IoOk
      (Json (JObj [(''title'', JStr ''A''), (''category'', JStr ''B''),
                   (''received_at'', JStr ''1999-01-01T00:00:00'')])) empty_world)
   \<and> (\<exists>items rec.
        disk (snd (submit_data sample_env ''2024-05-01T10:00:00'' ''2024-05-01T10:00:01'' IoOk
          (Json (JObj [(''title'', JStr ''A''), (''category'', JStr ''B'')])) empty_world))
          = Holds (JList (items @ [JObj rec]))
        \<and> map_of rec ''received_at'' = Some (JStr ''2024-05-01T10:00:01''))"
proof -
  let ?kv = "[(''title'', JStr ''A''), (''category'', JStr ''B'')] :: (string \<times> int json) list"
  let ?kv' = "[(''title'', JStr ''A''), (''category'', JStr ''B''),
               (''received_at'', JStr ''1999-01-01T00:00:00'')] :: (string \<times> int json) list"
  have a: "\<forall>k. k \<noteq> ''received_at'' \<longrightarrow> map_of ?kv k = map_of ?kv' k" by simp
  have s: "status_code (fst (submit_data sample_env ''2024-05-01T10:00:00''
              ''2024-05-01T10:00:01'' IoOk (Json (JObj ?kv)) empty_world)) = 201"
    by (simp add: run_defs)
  from C8_received_at_server_assigned[OF a, of sample_env "''2024-05-01T10:00:00''"
         "''2024-05-01T10:00:01''" IoOk empty_world] s
  show ?thesis by blast
qed

text \<open>
C9: after a submission the file is as it was, or corrupt (a failed write), or it holds the
list loaded before extended by one record whose keys are exactly \<^verbatim>\<open>title\<close>, \<^verbatim>\<open>description\<close>,
\<^verbatim>\<open>category\<close>, \<^verbatim>\<open>value\<close>, \<^verbatim>\<open>memo\<close>, \<^verbatim>\<open>timestamp\<close>, \<^verbatim>\<open>received_at\<close>, \<^verbatim>\<open>id\<close>. Any other key
of the submitted object is discarded: an object that agrees with the submitted one on the six
keys read leaves the same world behind, whatever else it contains.
\<close>

theorem C9_persisted_record_fields:
  assumes "submit_data env now1 now2 wr req w = (r, w')"
  shows "(disk w' = disk w \<or> disk w' = Corrupt \<or>
          (\<exists>items rec. load_data w = JList items
             \<and> disk w' = Holds (JList (items @ [JObj rec]))
             \<and> map fst rec = [''title'', ''description'', ''category'', ''value'', ''memo'',
                               ''timestamp'', ''received_at'', ''id'']))
       \<and> (\<forall>kv kv'. req = Json (JObj kv)
             \<and> (\<forall>k\<in>{''title'', ''description'', ''category'', ''value'', ''memo'', ''timestamp''}.
                   map_of kv k = map_of kv' k)
             \<longrightarrow> snd (submit_data env now1 now2 wr (Json (JObj kv')) w) = w')"
proof -
  have 1: "disk w' = disk w \<or> disk w' = Corrupt \<or>
          (\<exists>items rec. load_data w = JList items
             \<and> disk w' = Holds (JList (items @ [JObj rec]))
             \<and> map fst rec = [''title'', ''description'', ''category'', ''value'', ''memo'',
                               ''timestamp'', ''received_at'', ''id''])"
    using submit_data_cases[OF assms]
  proof (elim disjE exE conjE)
    fix kv sd nid items
    assume sd: "sanitized_data env now1 now2 kv = Inr sd"
      and ld: "load_data w = JList items"
      and w': "w' = snd (save_data wr (JList (items @ [JObj (sd @ [(''id'', nid)])])) w)"
    from sanitized_data_fields[OF sd]
    have "map fst (sd @ [(''id'', nid)]) = [''title'', ''description'', ''category'', ''value'',
            ''memo'', ''timestamp'', ''received_at'', ''id'']"
      by auto
    with ld w' show ?thesis by (cases wr) auto
  qed simp_all
  have 2: "\<forall>kv kv'. req = Json (JObj kv)
             \<and> (\<forall>k\<in>{''title'', ''description'', ''category'', ''value'', ''memo'', ''timestamp''}.
                   map_of kv k = map_of kv' k)
             \<longrightarrow> snd (submit_data env now1 now2 wr (Json (JObj kv')) w) = w'"
    using assms submit_world_agree by fastforce
  from 1 2 show ?thesis by (rule conjI)
qed


theorem C9_persisted_record_fields_witness:
  "(\<exists>items rec.
      disk (snd (submit_data sample_env ''t1'' ''t2'' IoOk
        (Json (JObj [(''title'', JStr ''A''), (''category'', JStr ''B''), (''admin'', JBool True)]))
        empty_world)) = Holds (JList (items @ [JObj rec]))
      \<and> map fst rec = [''title'', ''description'', ''category'', ''value'', ''memo'',
                        ''timestamp'', ''received_at'', ''id''])
   \<and> snd (submit_data sample_env ''t1'' ''t2'' IoOk
        (Json (JObj [(''title'', JStr ''A''), (''category'', JStr ''B'')])) empty_world)
     = snd (submit_data sample_env ''t1'' ''t2'' IoOk
        (Json (JObj [(''title'', JStr ''A''), (''category'', JStr ''B''), (''admin'', JBool True)]))
        empty_world)"
proof -
  let ?kv = "[(''title'', JStr ''A''), (''category'', JStr ''B''), (''admin'', JBool True)]
               :: (string \<times> int json) list"
  let ?kv' = "[(''title'', JStr ''A''), (''category'', JStr ''B'')] :: (string \<times> int json) list"
  obtain r w' where e: "submit_data sample_env ''t1'' ''t2'' IoOk (Json (JObj ?kv)) empty_world = (r, w')"
    by (cases "submit_data sample_env ''t1'' ''t2'' IoOk (Json (JObj ?kv)) empty_world")
  have n: "disk w' \<noteq> disk empty_world" "disk w' \<noteq> Corrupt"
    using e by (auto simp: run_defs)
  have a: "\<forall>k\<in>{''title'', ''description'', ''category'', ''value'', ''memo'', ''timestamp''}.
             map_of ?kv k = map_of ?kv' k"
    by simp
  note c = C9_persisted_record_fields[OF e]
  from c[THEN conjunct1] n
  have 1: "\<exists>items rec. disk w' = Holds (JList (items @ [JObj rec]))
             \<and> map fst rec = [''title'', ''description'', ''category'', ''value'', ''memo'',
                               ''timestamp'', ''received_at'', ''id'']"
    by (elim disjE) auto
  from c[THEN conjunct2, rule_format, of ?kv ?kv'] a
  have 2: "snd (submit_data sample_env ''t1'' ''t2'' IoOk (Json (JObj ?kv')) empty_world) = w'"
    by simp
  from 1 2 e show ?thesis by simp
qed

section \<open>Identifiers\<close>
















end
